theory Spec2Isabelle
  imports Main
begin

section \<open>AWS cost reporter: a model of \<^verbatim>\<open>pricing.py\<close>\<close>

text \<open>
  The script reads its configuration from the process environment, resolves a date
  window, asks the billing service for the cost per service, flattens the answer into
  rows, writes them to local files, uploads the files and prints a summary.

  Python strings are modelled as \<^typ>\<open>string\<close> restricted to ASCII; exceptions are
  values of the type \<open>error\<close> and a function that may raise returns \<open>error + 'a\<close>.
\<close>

datatype error =
    RuntimeError
  | ValueError
  | OverflowError
  | KeyError string
  | IndexError
  | InvalidOperation
  | ClientError
  | OSError

subsection \<open>Calendar dates (\<^verbatim>\<open>datetime.date\<close>)\<close>

record date =
  year :: nat
  month :: nat
  day :: nat

definition is_leap :: "nat \<Rightarrow> bool" where
  "is_leap y = (y mod 4 = 0 \<and> (y mod 100 \<noteq> 0 \<or> y mod 400 = 0))"

definition days_in_month :: "nat \<Rightarrow> nat \<Rightarrow> nat" where
  "days_in_month y m =
     (if m = 2 then (if is_leap y then 29 else 28)
      else if m = 4 \<or> m = 6 \<or> m = 9 \<or> m = 11 then 30
      else 31)"

text \<open>\<^verbatim>\<open>date.min\<close> is 0001-01-01 and \<^verbatim>\<open>date.max\<close> is 9999-12-31.\<close>

definition valid_date :: "date \<Rightarrow> bool" where
  "valid_date d =
     (1 \<le> year d \<and> year d \<le> 9999 \<and> 1 \<le> month d \<and> month d \<le> 12 \<and>
      1 \<le> day d \<and> day d \<le> days_in_month (year d) (month d))"

definition date_less :: "date \<Rightarrow> date \<Rightarrow> bool" where
  "date_less a b =
     (year a < year b \<or>
      (year a = year b \<and> (month a < month b \<or> (month a = month b \<and> day a < day b))))"

definition date_le :: "date \<Rightarrow> date \<Rightarrow> bool" where
  "date_le a b = (date_less a b \<or> (year a = year b \<and> month a = month b \<and> day a = day b))"

text \<open>\<^verbatim>\<open>d + datetime.timedelta(days=1)\<close>: the next calendar day, \<^verbatim>\<open>OverflowError\<close>
  past \<^verbatim>\<open>date.max\<close>.\<close>

definition add_one_day :: "date \<Rightarrow> error + date" where
  "add_one_day d =
     (if day d < days_in_month (year d) (month d) then Inr (d\<lparr>day := day d + 1\<rparr>)
      else if month d < 12 then Inr (d\<lparr>month := month d + 1, day := 1\<rparr>)
      else if year d < 9999 then Inr (d\<lparr>year := year d + 1, month := 1, day := 1\<rparr>)
      else Inl OverflowError)"

text \<open>\<^verbatim>\<open>d - datetime.timedelta(days=1)\<close>: the previous calendar day,
  \<^verbatim>\<open>OverflowError\<close> before \<^verbatim>\<open>date.min\<close>.\<close>

definition sub_one_day :: "date \<Rightarrow> error + date" where
  "sub_one_day d =
     (if 1 < day d then Inr (d\<lparr>day := day d - 1\<rparr>)
      else if 1 < month d
        then Inr (d\<lparr>month := month d - 1, day := days_in_month (year d) (month d - 1)\<rparr>)
      else if 1 < year d then Inr (d\<lparr>year := year d - 1, month := 12, day := 31\<rparr>)
      else Inl OverflowError)"

subsection \<open>\<^verbatim>\<open>strptime(s, "%Y-%m-%d")\<close> and \<^verbatim>\<open>strftime("%Y-%m-%d")\<close>\<close>

definition is_digit :: "char \<Rightarrow> bool" where
  "is_digit c = (c \<in> set ''0123456789'')"

definition digit_val :: "char \<Rightarrow> nat" where
  "digit_val c = of_char c - 48"

definition digit_char :: "nat \<Rightarrow> char" where
  "digit_char k = ''0123456789'' ! (k mod 10)"

text \<open>
  The format compiles to the regular expression
  \<^verbatim>\<open>(\d\d\d\d)-(1[0-2]|0[1-9]|[1-9])-(3[0-1]|[1-2]\d|0[1-9]|[1-9]| [1-9])\<close>,
  matched at the start of the string; the alternatives are tried in order.
\<close>

fun match_month :: "string \<Rightarrow> (nat \<times> string) option" where
  "match_month (a # b # r) =
     (if a = CHR ''1'' \<and> b \<in> set ''012'' then Some (10 + digit_val b, r)
      else if a = CHR ''0'' \<and> b \<in> set ''123456789'' then Some (digit_val b, r)
      else if a \<in> set ''123456789'' then Some (digit_val a, b # r)
      else None)"
| "match_month [a] = (if a \<in> set ''123456789'' then Some (digit_val a, []) else None)"
| "match_month [] = None"

fun match_day :: "string \<Rightarrow> (nat \<times> string) option" where
  "match_day (a # b # r) =
     (if a = CHR ''3'' \<and> b \<in> set ''01'' then Some (30 + digit_val b, r)
      else if a \<in> set ''12'' \<and> is_digit b then Some (10 * digit_val a + digit_val b, r)
      else if a = CHR ''0'' \<and> b \<in> set ''123456789'' then Some (digit_val b, r)
      else if a \<in> set ''123456789'' then Some (digit_val a, b # r)
      else if a = CHR '' '' \<and> b \<in> set ''123456789'' then Some (digit_val b, r)
      else None)"
| "match_day [a] = (if a \<in> set ''123456789'' then Some (digit_val a, []) else None)"
| "match_day [] = None"

text \<open>
  A string that does not match, text left over after the match, the year 0 and a day
  that the month does not have all raise \<^verbatim>\<open>ValueError\<close>.
\<close>

fun strptime_ymd :: "string \<Rightarrow> error + date" where
  "strptime_ymd (y1 # y2 # y3 # y4 # h1 # r) =
     (if is_digit y1 \<and> is_digit y2 \<and> is_digit y3 \<and> is_digit y4 \<and> h1 = CHR ''-'' then
        (case match_month r of
           None \<Rightarrow> Inl ValueError
         | Some (m, r') \<Rightarrow>
             (case r' of
                [] \<Rightarrow> Inl ValueError
              | h2 # r'' \<Rightarrow>
                  if h2 \<noteq> CHR ''-'' then Inl ValueError
                  else
                    (case match_day r'' of
                       None \<Rightarrow> Inl ValueError
                     | Some (dd, rest) \<Rightarrow>
                         let d = \<lparr>year = 1000 * digit_val y1 + 100 * digit_val y2
                                        + 10 * digit_val y3 + digit_val y4,
                                  month = m, day = dd\<rparr>
                         in if rest \<noteq> [] then Inl ValueError
                            else if valid_date d then Inr d
                            else Inl ValueError)))
      else Inl ValueError)"
| "strptime_ymd _ = Inl ValueError"

text \<open>The decimal digits of a number that is not negative.\<close>

function decimal_digits :: "int \<Rightarrow> string" where
  "decimal_digits n =
     (if n < 10 then [digit_char (nat n)]
      else decimal_digits (n div 10) @ [digit_char (nat (n mod 10))])"
  by pat_completeness auto
termination
  by (relation "measure nat") auto

declare decimal_digits.simps [simp del]

definition pad2 :: "nat \<Rightarrow> string" where
  "pad2 n = [digit_char (n div 10), digit_char n]"

text \<open>
  \<^verbatim>\<open>%Y\<close> is the year as the C library writes it, in decimal and without padding
  (\<^verbatim>\<open>999-12-31\<close> for a day of the year 999); \<^verbatim>\<open>%m\<close> and \<^verbatim>\<open>%d\<close> have two digits.
\<close>

definition strftime_ymd :: "date \<Rightarrow> string" where
  "strftime_ymd d =
     decimal_digits (int (year d)) @ ''-'' @ pad2 (month d) @ ''-'' @ pad2 (day d)"

subsection \<open>Configuration\<close>

text \<open>
  The module reads \<^verbatim>\<open>os.environ\<close> once, after \<^verbatim>\<open>load_dotenv\<close>; \<open>env\<close> is the
  environment at that point. \<^verbatim>\<open>os.environ.get(k)\<close> is \<open>None\<close> for an unset variable.
\<close>

type_synonym environ = "string \<rightharpoonup> string"

record config =
  PROFILE :: "string option"
  BUCKET :: "string option"
  PREFIX :: string
  DATE :: "string option"
  START :: "string option"
  END :: "string option"

definition load_config :: "environ \<Rightarrow> config" where
  "load_config env =
     \<lparr>PROFILE = env ''AWS_PROFILE'',
      BUCKET = env ''COST_S3_BUCKET'',
      PREFIX = (case env ''COST_S3_PREFIX'' of None \<Rightarrow> ''aws-costs/'' | Some p \<Rightarrow> p),
      DATE = env ''COST_DATE'',
      START = env ''COST_START'',
      END = env ''COST_END''\<rparr>"

text \<open>Truth value of an optional string: \<^verbatim>\<open>None\<close> and \<^verbatim>\<open>""\<close> are false.\<close>

fun truthy :: "string option \<Rightarrow> bool" where
  "truthy None = False"
| "truthy (Some s) = (s \<noteq> [])"

subsection \<open>\<^verbatim>\<open>get_dates\<close>\<close>

text \<open>\<open>today\<close> is the value of \<^verbatim>\<open>datetime.date.today()\<close>.\<close>

definition get_dates :: "config \<Rightarrow> date \<Rightarrow> error + (string \<times> string \<times> string)" where
  "get_dates cfg today =
     (if truthy (DATE cfg) then
        (case strptime_ymd (the (DATE cfg)) of
           Inl e \<Rightarrow> Inl e
         | Inr d \<Rightarrow>
             (case add_one_day d of
                Inl e \<Rightarrow> Inl e
              | Inr d' \<Rightarrow> Inr (strftime_ymd d, strftime_ymd d', the (DATE cfg))))
      else if truthy (START cfg) \<and> truthy (END cfg) then
        (case strptime_ymd (the (START cfg)) of
           Inl e \<Rightarrow> Inl e
         | Inr s \<Rightarrow>
             (case strptime_ymd (the (END cfg)) of
                Inl e \<Rightarrow> Inl e
              | Inr e \<Rightarrow>
                  (case add_one_day e of
                     Inl err \<Rightarrow> Inl err
                   | Inr e' \<Rightarrow>
                       Inr (strftime_ymd s, strftime_ymd e',
                            the (START cfg) @ ''_to_'' @ the (END cfg)))))
      else
        (case sub_one_day today of
           Inl e \<Rightarrow> Inl e
         | Inr yest \<Rightarrow>
             (case add_one_day yest of
                Inl e \<Rightarrow> Inl e
              | Inr t \<Rightarrow> Inr (strftime_ymd yest, strftime_ymd t, strftime_ymd yest))))"

subsection \<open>Floating-point numbers (\<^verbatim>\<open>float\<close>)\<close>

text \<open>
  A \<^verbatim>\<open>float\<close> is an IEEE 754 binary64 number. \<open>Finite m e\<close> stands for the number
  \<open>m * 2 ^ e\<close>, with \<open>m\<close> odd; \<open>Finite 0 0\<close> is \<^verbatim>\<open>0.0\<close> and \<open>NegZero\<close> is \<^verbatim>\<open>-0.0\<close>.
\<close>

datatype pyfloat = Finite int int | NegZero | PosInf | NegInf | NaN

text \<open>The number of bits of a positive integer.\<close>

function bitlen :: "int \<Rightarrow> int" where
  "bitlen n = (if 0 < n then 1 + bitlen (n div 2) else 0)"
  by pat_completeness auto
termination
  by (relation "measure nat") auto

declare bitlen.simps [simp del]

text \<open>\<open>p / q\<close> rounded to the nearest integer, a tie to the even one (\<open>0 \<le> p\<close>, \<open>0 < q\<close>).\<close>

definition rdiv_even :: "int \<Rightarrow> int \<Rightarrow> int" where
  "rdiv_even p q =
     (let d = p div q; r = p mod q
      in if 2 * r < q then d else if q < 2 * r then d + 1 else if even d then d else d + 1)"

text \<open>For \<open>0 < p\<close> and \<open>0 < q\<close>, the exponent \<open>e\<close> with \<open>2 ^ e \<le> p / q < 2 ^ (e + 1)\<close>.\<close>

definition ilog2 :: "int \<Rightarrow> int \<Rightarrow> int" where
  "ilog2 p q =
     (let e = bitlen p - bitlen q
      in if q * 2 ^ nat e \<le> p * 2 ^ nat (- e) then e else e - 1)"

text \<open>Dividing out the powers of two of a significand.\<close>

function odd_part :: "int \<Rightarrow> int \<Rightarrow> int \<times> int" where
  "odd_part m e = (if m \<noteq> 0 \<and> even m then odd_part (m div 2) (e + 1) else (m, e))"
  by pat_completeness auto
termination
  by (relation "measure (\<lambda>(m, e). nat \<bar>m\<bar>)") auto

declare odd_part.simps [simp del]

text \<open>
  The binary64 number nearest to \<open>p / q\<close> (\<open>0 < p\<close>, \<open>0 < q\<close>), with the sign \<open>neg\<close>, a tie
  to the even significand: 53 bits of significand, the least exponent \<open>-1074\<close>,
  infinity from \<open>2 ^ 1024\<close> on.
\<close>

definition round_double :: "bool \<Rightarrow> int \<Rightarrow> int \<Rightarrow> pyfloat" where
  "round_double neg p q =
     (let k = max (ilog2 p q - 52) (- 1074);
          n = rdiv_even (p * 2 ^ nat (- k)) (q * 2 ^ nat k)
      in if (if 0 \<le> k then 2 ^ 1024 \<le> n * 2 ^ nat k else False)
           then (if neg then NegInf else PosInf)
         else if n = 0 then (if neg then NegZero else Finite 0 0)
         else (case odd_part n k of (m, e) \<Rightarrow> Finite (if neg then - m else m) e))"

text \<open>Addition of two floats, rounded to nearest.\<close>

fun float_add :: "pyfloat \<Rightarrow> pyfloat \<Rightarrow> pyfloat" where
  "float_add NaN _ = NaN"
| "float_add _ NaN = NaN"
| "float_add PosInf NegInf = NaN"
| "float_add NegInf PosInf = NaN"
| "float_add PosInf _ = PosInf"
| "float_add _ PosInf = PosInf"
| "float_add NegInf _ = NegInf"
| "float_add _ NegInf = NegInf"
| "float_add NegZero y = y"
| "float_add x NegZero = x"
| "float_add (Finite m1 e1) (Finite m2 e2) =
     (let e = min e1 e2;
          s = m1 * 2 ^ nat (e1 - e) + m2 * 2 ^ nat (e2 - e)
      in if s = 0 then Finite 0 0
         else round_double (s < 0) (\<bar>s\<bar> * 2 ^ nat e) (2 ^ nat (- e)))"

text \<open>
  \<^verbatim>\<open>sum(xs)\<close> over floats: the items are added from left to right, starting from the
  integer \<open>0\<close>, which the first addition turns into \<^verbatim>\<open>0.0\<close>. (This is the sum of
  CPython up to 3.11; later versions carry a correction term along, which changes the
  last bit of some sums.)
\<close>

definition py_sum :: "pyfloat list \<Rightarrow> pyfloat" where
  "py_sum xs = foldl float_add (Finite 0 0) xs"

text \<open>
  The format \<^verbatim>\<open>{x:.2f}\<close>: the exact value rounded to two decimals, a tie to even, and
  the sign of the value kept. (The integer \<open>0\<close> of an empty sum is written like \<^verbatim>\<open>0.0\<close>.)
\<close>

fun format_2f :: "pyfloat \<Rightarrow> string" where
  "format_2f NaN = ''nan''"
| "format_2f PosInf = ''inf''"
| "format_2f NegInf = ''-inf''"
| "format_2f NegZero = ''-0.00''"
| "format_2f (Finite m e) =
     (let n = rdiv_even (\<bar>m\<bar> * 100 * 2 ^ nat e) (2 ^ nat (- e))
      in (if m < 0 then ''-'' else []) @ decimal_digits (n div 100) @ ''.''
           @ pad2 (nat (n mod 100)))"

subsection \<open>\<^verbatim>\<open>float(Decimal(s))\<close>\<close>

text \<open>A \<^verbatim>\<open>Decimal\<close>: sign, coefficient and exponent, or a special value.\<close>

datatype decimal = DFinite bool int int | DInf bool | DNaN | DSNaN

definition is_space :: "char \<Rightarrow> bool" where
  "is_space c = (of_char c \<in> {9, 10, 11, 12, 13, 28, 29, 30, 31, 32 :: nat})"

definition strip :: "string \<Rightarrow> string" where
  "strip s = rev (dropWhile is_space (rev (dropWhile is_space s)))"

definition lower :: "char \<Rightarrow> char" where
  "lower c =
     (case map_of (zip ''ABCDEFGHIJKLMNOPQRSTUVWXYZ'' ''abcdefghijklmnopqrstuvwxyz'') c of
        None \<Rightarrow> c
      | Some l \<Rightarrow> l)"

definition digits_value :: "string \<Rightarrow> int" where
  "digits_value ds = foldl (\<lambda>n c. 10 * n + int (digit_val c)) 0 ds"

text \<open>The exponent part: nothing, or \<^verbatim>\<open>e\<close>, an optional sign and at least one digit.\<close>

fun parse_exponent :: "string \<Rightarrow> int option" where
  "parse_exponent [] = Some 0"
| "parse_exponent (c # r) =
     (if lower c \<noteq> CHR ''e'' then None
      else
        let (neg, ds) =
              (case r of
                 [] \<Rightarrow> (False, r)
               | h # t \<Rightarrow> if h = CHR ''-'' then (True, t)
                          else if h = CHR ''+'' then (False, t) else (False, r))
        in if ds = [] \<or> \<not> list_all is_digit ds then None
           else Some (if neg then - digits_value ds else digits_value ds))"

text \<open>
  \<^verbatim>\<open>Decimal(s)\<close>: white space around the text and underscores are dropped; then comes an
  optional sign and either digits with an optional fraction and exponent, or an
  infinity, or a NaN. The value is kept exactly; it must fit the widest context
  (adjusted exponent at most \<open>999999999999999999\<close>, exponent at least
  \<open>-1999999999999999997\<close>). Anything else raises \<^verbatim>\<open>InvalidOperation\<close>.
\<close>

definition parse_decimal :: "string \<Rightarrow> error + decimal" where
  "parse_decimal s =
     (let t = filter (\<lambda>c. c \<noteq> CHR ''_'') (strip s);
          (neg, u) =
            (case t of
               [] \<Rightarrow> (False, t)
             | h # r \<Rightarrow> if h = CHR ''-'' then (True, r)
                        else if h = CHR ''+'' then (False, r) else (False, t));
          l = map lower u
      in if l = ''inf'' \<or> l = ''infinity'' then Inr (DInf neg)
         else if take 3 l = ''nan'' \<and> list_all is_digit (drop 3 l) then Inr DNaN
         else if take 4 l = ''snan'' \<and> list_all is_digit (drop 4 l) then Inr DSNaN
         else
           let ip = takeWhile is_digit u;
               r1 = dropWhile is_digit u;
               fp = (case r1 of
                       [] \<Rightarrow> []
                     | h # r \<Rightarrow> if h = CHR ''.'' then takeWhile is_digit r else []);
               r2 = (case r1 of
                       [] \<Rightarrow> []
                     | h # r \<Rightarrow> if h = CHR ''.'' then dropWhile is_digit r else r1)
           in if ip = [] \<and> fp = [] then Inl InvalidOperation
              else
                (case parse_exponent r2 of
                   None \<Rightarrow> Inl InvalidOperation
                 | Some ex \<Rightarrow>
                     let c = digits_value (ip @ fp);
                         e = ex - int (length fp)
                     in if e + int (length (decimal_digits c)) - 1 \<le> 999999999999999999
                           \<and> - 1999999999999999997 \<le> e
                        then Inr (DFinite neg c e)
                        else Inl InvalidOperation))"

text \<open>
  \<^verbatim>\<open>float(d)\<close>: the float nearest to \<open>c * 10 ^ e\<close>; a signalling NaN raises
  \<^verbatim>\<open>ValueError\<close>. A number of more than 400 digits before the point is beyond the
  largest float, and one with more than 400 zeros after the point is below half of the
  least one: these are decided by their order of magnitude.
\<close>

fun float_of_decimal :: "decimal \<Rightarrow> error + pyfloat" where
  "float_of_decimal (DFinite neg c e) =
     Inr (if c = 0 then (if neg then NegZero else Finite 0 0)
          else
            let adjusted = e + int (length (decimal_digits c)) - 1
            in if 400 < adjusted then (if neg then NegInf else PosInf)
               else if adjusted < - 400 then (if neg then NegZero else Finite 0 0)
               else round_double neg (c * 10 ^ nat e) (10 ^ nat (- e)))"
| "float_of_decimal (DInf neg) = Inr (if neg then NegInf else PosInf)"
| "float_of_decimal DNaN = Inr NaN"
| "float_of_decimal DSNaN = Inl ValueError"

definition to_float :: "string \<Rightarrow> error + pyfloat" where
  "to_float s = (case parse_decimal s of Inl e \<Rightarrow> Inl e | Inr d \<Rightarrow> float_of_decimal d)"

subsection \<open>The response of the billing service\<close>

text \<open>
  \<^verbatim>\<open>get_cost_and_usage\<close> answers with nested dictionaries and lists. A key that a
  dictionary may lack is an optional field, \<open>None\<close> when the key is absent; the
  innermost dictionaries, of strings, are maps.
\<close>

record group =
  Keys :: "string list option"
  Metrics :: "(string \<rightharpoonup> (string \<rightharpoonup> string)) option"

record period =
  TimePeriod :: "(string \<rightharpoonup> string) option"
  Groups :: "group list option"

record response =
  ResultsByTime :: "period list option"

text \<open>One flat record, the dictionary that \<open>normalize\<close> appends for a group.\<close>

record row =
  date :: string
  service :: string
  amount :: pyfloat
  unit :: string

subsection \<open>\<^verbatim>\<open>normalize\<close>\<close>

text \<open>\<^verbatim>\<open>resp.get("ResultsByTime", [])\<close> and \<^verbatim>\<open>period.get("Groups", [])\<close>.\<close>

definition periods_of :: "response \<Rightarrow> period list" where
  "periods_of resp = (case ResultsByTime resp of None \<Rightarrow> [] | Some ps \<Rightarrow> ps)"

definition groups_of :: "period \<Rightarrow> group list" where
  "groups_of p = (case Groups p of None \<Rightarrow> [] | Some gs \<Rightarrow> gs)"

text \<open>
  The body of the inner loop, in the order in which it reads the dictionaries: a
  missing key raises \<^verbatim>\<open>KeyError\<close>, an empty key list \<^verbatim>\<open>IndexError\<close>.
\<close>

definition normalize_group :: "period \<Rightarrow> group \<Rightarrow> error + row" where
  "normalize_group p g =
     (case Keys g of
        None \<Rightarrow> Inl (KeyError ''Keys'')
      | Some [] \<Rightarrow> Inl IndexError
      | Some (k # _) \<Rightarrow>
     (case Metrics g of
        None \<Rightarrow> Inl (KeyError ''Metrics'')
      | Some ms \<Rightarrow>
     (case ms ''UnblendedCost'' of
        None \<Rightarrow> Inl (KeyError ''UnblendedCost'')
      | Some metric \<Rightarrow>
     (case metric ''Amount'' of
        None \<Rightarrow> Inl (KeyError ''Amount'')
      | Some a \<Rightarrow>
     (case to_float a of
        Inl e \<Rightarrow> Inl e
      | Inr x \<Rightarrow>
     (case metric ''Unit'' of
        None \<Rightarrow> Inl (KeyError ''Unit'')
      | Some u \<Rightarrow>
     (case TimePeriod p of
        None \<Rightarrow> Inl (KeyError ''TimePeriod'')
      | Some tp \<Rightarrow>
     (case tp ''Start'' of
        None \<Rightarrow> Inl (KeyError ''Start'')
      | Some d \<Rightarrow> Inr \<lparr>date = d, service = k, amount = x, unit = u\<rparr>))))))))"

text \<open>The two loops; \<open>rows\<close> is the list built so far.\<close>

fun normalize_groups :: "period \<Rightarrow> group list \<Rightarrow> row list \<Rightarrow> error + row list" where
  "normalize_groups p [] rows = Inr rows"
| "normalize_groups p (g # gs) rows =
     (case normalize_group p g of
        Inl e \<Rightarrow> Inl e
      | Inr r \<Rightarrow> normalize_groups p gs (rows @ [r]))"

fun normalize_periods :: "period list \<Rightarrow> row list \<Rightarrow> error + row list" where
  "normalize_periods [] rows = Inr rows"
| "normalize_periods (p # ps) rows =
     (case normalize_groups p (groups_of p) rows of
        Inl e \<Rightarrow> Inl e
      | Inr rows' \<Rightarrow> normalize_periods ps rows')"

definition normalize :: "response \<Rightarrow> error + row list" where
  "normalize resp = normalize_periods (periods_of resp) []"

subsection \<open>The flat records, as the specification describes them\<close>

text \<open>
  What a record carries for a group of a period: the start date of the period, the
  first key of the group, its unblended-cost amount as a float, and its currency unit.
\<close>

definition period_start :: "period \<Rightarrow> string option" where
  "period_start p = (case TimePeriod p of None \<Rightarrow> None | Some tp \<Rightarrow> tp ''Start'')"

definition group_service :: "group \<Rightarrow> string option" where
  "group_service g = (case Keys g of None \<Rightarrow> None | Some [] \<Rightarrow> None | Some (k # _) \<Rightarrow> Some k)"

definition group_metric :: "group \<Rightarrow> (string \<rightharpoonup> string) option" where
  "group_metric g = (case Metrics g of None \<Rightarrow> None | Some ms \<Rightarrow> ms ''UnblendedCost'')"

definition group_amount :: "group \<Rightarrow> pyfloat option" where
  "group_amount g =
     (case group_metric g of
        None \<Rightarrow> None
      | Some metric \<Rightarrow>
          (case metric ''Amount'' of
             None \<Rightarrow> None
           | Some a \<Rightarrow> (case to_float a of Inl _ \<Rightarrow> None | Inr x \<Rightarrow> Some x)))"

definition group_unit :: "group \<Rightarrow> string option" where
  "group_unit g = (case group_metric g of None \<Rightarrow> None | Some metric \<Rightarrow> metric ''Unit'')"

definition well_formed :: "period \<Rightarrow> group \<Rightarrow> bool" where
  "well_formed p g =
     (period_start p \<noteq> None \<and> group_service g \<noteq> None \<and> group_amount g \<noteq> None
      \<and> group_unit g \<noteq> None)"

definition flat_record :: "period \<Rightarrow> group \<Rightarrow> row" where
  "flat_record p g =
     \<lparr>date = the (period_start p), service = the (group_service g),
      amount = the (group_amount g), unit = the (group_unit g)\<rparr>"

definition flat_records :: "response \<Rightarrow> row list" where
  "flat_records resp =
     concat (map (\<lambda>p. map (flat_record p) (groups_of p)) (periods_of resp))"

subsection \<open>An example response\<close>

text \<open>
  One period, 2024-01-01, with the groups \<^verbatim>\<open>("AmazonEC2", "12.3400", "USD")\<close> and
  \<^verbatim>\<open>("AmazonS3", "0.5000", "USD")\<close>.
\<close>

definition example_group :: "string \<Rightarrow> string \<Rightarrow> string \<Rightarrow> group" where
  "example_group k a u =
     \<lparr>Keys = Some [k],
      Metrics = Some [''UnblendedCost'' \<mapsto> [''Amount'' \<mapsto> a, ''Unit'' \<mapsto> u]]\<rparr>"

definition example_response :: response where
  "example_response =
     \<lparr>ResultsByTime = Some
        [\<lparr>TimePeriod = Some [''Start'' \<mapsto> ''2024-01-01'', ''End'' \<mapsto> ''2024-01-02''],
          Groups = Some [example_group ''AmazonEC2'' ''12.3400'' ''USD'',
                         example_group ''AmazonS3'' ''0.5000'' ''USD'']\<rparr>]\<rparr>"

subsection \<open>Effects\<close>

text \<open>
  What the script does to the outside, in the order in which it does it. The cost
  query and the uploads are its network calls.
\<close>

datatype event =
    CreateClient string "string option"
  | GetCostAndUsage string string
  | MakeDirs string
  | WriteJson string "row list"
  | WriteCsv string "row list"
  | UploadFile string string string
  | Print string

text \<open>
  What the outside answers: the date of the day, whether \<^verbatim>\<open>import pandas\<close> succeeded,
  and for each call the exception it raises, if any.
\<close>

record world =
  current_date :: date
  has_pandas :: bool
  client_outcome :: "string \<Rightarrow> error option"
  cost_and_usage :: "string \<Rightarrow> string \<Rightarrow> error + response"
  makedirs_outcome :: "string \<Rightarrow> error option"
  write_outcome :: "string \<Rightarrow> error option"
  upload_outcome :: "string \<Rightarrow> string \<Rightarrow> string \<Rightarrow> error option"
  print_outcome :: "string \<Rightarrow> error option"

text \<open>
  A run is the list of its events and its result; an exception ends the run, and the
  events before it stay.
\<close>

type_synonym 'a run = "event list \<times> (error + 'a)"

definition and_then :: "'a run \<Rightarrow> ('a \<Rightarrow> 'b run) \<Rightarrow> 'b run" where
  "and_then m f =
     (case m of
        (t, Inl e) \<Rightarrow> (t, Inl e)
      | (t, Inr x) \<Rightarrow> (case f x of (t', r) \<Rightarrow> (t @ t', r)))"

definition effect :: "event \<Rightarrow> error option \<Rightarrow> unit run" where
  "effect ev outcome = ([ev], case outcome of None \<Rightarrow> Inr () | Some e \<Rightarrow> Inl e)"

definition no_effect :: "error + 'a \<Rightarrow> 'a run" where
  "no_effect r = ([], r)"

subsection \<open>Clients, files and uploads\<close>

definition boto3_ce_client :: "config \<Rightarrow> world \<Rightarrow> unit run" where
  "boto3_ce_client cfg w =
     effect (CreateClient ''ce'' (if truthy (PROFILE cfg) then PROFILE cfg else None))
       (client_outcome w ''ce'')"

definition boto3_s3_client :: "config \<Rightarrow> world \<Rightarrow> unit run" where
  "boto3_s3_client cfg w =
     effect (CreateClient ''s3'' (if truthy (PROFILE cfg) then PROFILE cfg else None))
       (client_outcome w ''s3'')"

definition get_cost_by_service :: "world \<Rightarrow> string \<Rightarrow> string \<Rightarrow> response run" where
  "get_cost_by_service w start stop = ([GetCostAndUsage start stop], cost_and_usage w start stop)"

definition save_json :: "world \<Rightarrow> row list \<Rightarrow> string \<Rightarrow> unit run" where
  "save_json w rows path = effect (WriteJson path rows) (write_outcome w path)"

definition save_csv :: "world \<Rightarrow> row list \<Rightarrow> string \<Rightarrow> unit run" where
  "save_csv w rows path =
     (if \<not> has_pandas w then no_effect (Inr ())
      else effect (WriteCsv path rows) (write_outcome w path))"

definition upload :: "config \<Rightarrow> world \<Rightarrow> string \<Rightarrow> string \<Rightarrow> string \<Rightarrow> unit run" where
  "upload cfg w local bucket key =
     and_then (boto3_s3_client cfg w)
       (\<lambda>_. effect (UploadFile local bucket key) (upload_outcome w local bucket key))"

text \<open>\<^verbatim>\<open>s.rstrip('/')\<close>, \<^verbatim>\<open>os.path.join(a, b)\<close> and \<^verbatim>\<open>os.path.basename(p)\<close> (POSIX).\<close>

definition rstrip_slash :: "string \<Rightarrow> string" where
  "rstrip_slash s = rev (dropWhile (\<lambda>c. c = CHR ''/'') (rev s))"

definition path_join :: "string \<Rightarrow> string \<Rightarrow> string" where
  "path_join a b =
     (if b \<noteq> [] \<and> hd b = CHR ''/'' then b
      else if a = [] \<or> last a = CHR ''/'' then a @ b
      else a @ ''/'' @ b)"

definition basename :: "string \<Rightarrow> string" where
  "basename p = rev (takeWhile (\<lambda>c. c \<noteq> CHR ''/'') (rev p))"

subsection \<open>\<^verbatim>\<open>main\<close> and the module\<close>

text \<open>
  The characters of the two messages outside ASCII, as the bytes of their UTF-8 form.
\<close>

definition uploaded_mark :: string where
  "uploaded_mark = [CHR 0xC3, CHR 0xA2, CHR 0xC5, CHR 0x93, CHR 0xE2, CHR 0x80, CHR 0xA6]"

definition arrow_mark :: string where
  "arrow_mark = [CHR 0xC3, CHR 0xA2, CHR 0xE2, CHR 0x80, CHR 0xA0, CHR 0xE2, CHR 0x80, CHR 0x99]"

definition total_mark :: string where
  "total_mark =
     [CHR 0xC3, CHR 0xB0, CHR 0xC5, CHR 0xB8, CHR 0xE2, CHR 0x80, CHR 0x99, CHR 0xC2, CHR 0xB0]"

definition main :: "config \<Rightarrow> world \<Rightarrow> unit run" where
  "main cfg w =
     and_then (boto3_ce_client cfg w) (\<lambda>_.
     and_then (no_effect (get_dates cfg (current_date w))) (\<lambda>(start, stop, label).
     and_then (get_cost_by_service w start stop) (\<lambda>resp.
     and_then (no_effect (normalize resp)) (\<lambda>rows.
     and_then (effect (MakeDirs ''output'') (makedirs_outcome w ''output'')) (\<lambda>_.
     let json_file = path_join ''output'' (''aws_costs_'' @ label @ ''.json'');
         csv_file = path_join ''output'' (''aws_costs_'' @ label @ ''.csv'')
     in
     and_then (save_json w rows json_file) (\<lambda>_.
     and_then (save_csv w rows csv_file) (\<lambda>_.
     and_then (upload cfg w json_file (the (BUCKET cfg))
                 (rstrip_slash (PREFIX cfg) @ ''/'' @ basename json_file)) (\<lambda>_.
     and_then (if has_pandas w
               then upload cfg w csv_file (the (BUCKET cfg))
                      (rstrip_slash (PREFIX cfg) @ ''/'' @ basename csv_file)
               else no_effect (Inr ())) (\<lambda>_.
     let total = py_sum (map amount rows);
         u = (case rows of [] \<Rightarrow> ''USD'' | r # _ \<Rightarrow> unit r);
         line1 = uploaded_mark @ '' Uploaded billing for '' @ label @ '' '' @ arrow_mark
                   @ '' s3://'' @ the (BUCKET cfg) @ ''/'' @ PREFIX cfg;
         line2 = total_mark @ '' Total = '' @ format_2f total @ '' '' @ u
     in
     and_then (effect (Print line1) (print_outcome w line1)) (\<lambda>_.
     effect (Print line2) (print_outcome w line2)))))))))))"

text \<open>
  The module, run as a script: it reads the configuration, raises \<^verbatim>\<open>RuntimeError\<close>
  when the bucket is missing, and only then calls \<open>main\<close>.
\<close>

definition program :: "environ \<Rightarrow> world \<Rightarrow> unit run" where
  "program env w =
     (let cfg = load_config env
      in if \<not> truthy (BUCKET cfg) then ([], Inl RuntimeError) else main cfg w)"

text \<open>An outside where every call succeeds and the service answers with the example.\<close>

definition example_world :: world where
  "example_world =
     \<lparr>current_date = \<lparr>year = 2024, month = 1, day = 2\<rparr>,
      has_pandas = False,
      client_outcome = (\<lambda>_. None),
      cost_and_usage = (\<lambda>_ _. Inr example_response),
      makedirs_outcome = (\<lambda>_. None),
      write_outcome = (\<lambda>_. None),
      upload_outcome = (\<lambda>_ _ _. None),
      print_outcome = (\<lambda>_. None)\<rparr>"

definition example_environ :: environ where
  "example_environ = [''COST_S3_BUCKET'' \<mapsto> ''reports'']"

text \<open>Every call to the outside succeeds.\<close>

definition calls_succeed :: "world \<Rightarrow> bool" where
  "calls_succeed w =
     ((\<forall>s. client_outcome w s = None) \<and> (\<forall>p. makedirs_outcome w p = None)
      \<and> (\<forall>p. write_outcome w p = None) \<and> (\<forall>l b k. upload_outcome w l b k = None)
      \<and> (\<forall>l. print_outcome w l = None))"

text \<open>The records of the example response.\<close>

definition example_rows :: "row list" where
  "example_rows =
     [\<lparr>date = ''2024-01-01'', service = ''AmazonEC2'',
        amount = Finite 3473401212609495 (- 48), unit = ''USD''\<rparr>,
      \<lparr>date = ''2024-01-01'', service = ''AmazonS3'', amount = Finite 1 (- 1),
        unit = ''USD''\<rparr>]"

subsection \<open>The modes of the window\<close>

text \<open>The second branch of \<open>get_dates\<close>: no single date, and both ends of a range.\<close>

definition range_mode :: "config \<Rightarrow> bool" where
  "range_mode cfg = (\<not> truthy (DATE cfg) \<and> truthy (START cfg) \<and> truthy (END cfg))"

section \<open>Properties\<close>

subsection \<open>Calendar arithmetic\<close>

lemma days_in_month_bounds: "28 \<le> days_in_month y m \<and> days_in_month y m \<le> 31"
  by (simp add: days_in_month_def)

lemma days_in_december: "days_in_month y 12 = 31"
  by (simp add: days_in_month_def)

lemma add_one_day_valid:
  assumes "valid_date d" "add_one_day d = Inr d'"
  shows "valid_date d' \<and> date_less d d'"
  using assms days_in_month_bounds [of "year d" "Suc (month d)"]
    days_in_month_bounds [of "Suc (year d)" 1]
  by (auto simp: valid_date_def add_one_day_def date_less_def split: if_splits)

lemma sub_one_day_valid:
  assumes v: "valid_date t" and s: "sub_one_day t = Inr y"
  shows "valid_date y \<and> add_one_day y = Inr t"
proof -
  consider (day) "1 < day t"
    | (month) "day t = 1" "1 < month t"
    | (year) "day t = 1" "month t = 1" "1 < year t"
    | (none) "day t = 1" "month t = 1" "year t = 1"
    using v unfolding valid_date_def by linarith
  then show ?thesis
  proof cases
    case day
    then have y: "y = t\<lparr>day := day t - 1\<rparr>"
      using s by (simp add: sub_one_day_def)
    have lt: "day t - 1 < days_in_month (year t) (month t)" and ge: "1 \<le> day t - 1"
      using v day unfolding valid_date_def by linarith+
    have "valid_date y"
      using v lt ge unfolding y valid_date_def by simp
    moreover have "add_one_day y = Inr t"
      using lt day unfolding y add_one_day_def by simp
    ultimately show ?thesis by simp
  next
    case month
    then have y: "y = t\<lparr>month := month t - 1, day := days_in_month (year t) (month t - 1)\<rparr>"
      using s by (simp add: sub_one_day_def)
    have m: "1 \<le> month t - 1" "month t - 1 < 12" "month t - 1 + 1 = month t"
      using v month unfolding valid_date_def by linarith+
    have "valid_date y"
      using v m days_in_month_bounds [of "year t" "month t - 1"]
      unfolding y valid_date_def by simp
    moreover have "add_one_day y = Inr t"
      using m month unfolding y add_one_day_def by simp
    ultimately show ?thesis by simp
  next
    case year
    then have y: "y = t\<lparr>year := year t - 1, month := 12, day := 31\<rparr>"
      using s by (simp add: sub_one_day_def)
    have yr: "1 \<le> year t - 1" "year t - 1 < 9999" "year t - 1 + 1 = year t"
      using v year unfolding valid_date_def by linarith+
    have "valid_date y"
      using yr unfolding y valid_date_def by (simp add: days_in_december)
    moreover have "add_one_day y = Inr t"
      using yr year unfolding y add_one_day_def by (simp add: days_in_december)
    ultimately show ?thesis by simp
  next
    case none
    then show ?thesis using s by (simp add: sub_one_day_def)
  qed
qed

lemma strptime_ymd_valid: "strptime_ymd s = Inr d \<Longrightarrow> valid_date d"
  by (induction s rule: strptime_ymd.induct)
     (auto simp: Let_def split: if_splits option.splits list.splits prod.splits)

lemma add_one_day_next:
  assumes "valid_date d" "add_one_day d = Inr d'" "valid_date x" "date_less d x"
  shows "date_le d' x"
proof -
  consider (day) "day d < days_in_month (year d) (month d)"
    | (month) "day d = days_in_month (year d) (month d)" "month d < 12"
    | (year) "day d = days_in_month (year d) (month d)" "month d = 12"
    using assms(1) unfolding valid_date_def by linarith
  then show ?thesis
  proof cases
    case day
    then have "d' = d\<lparr>day := day d + 1\<rparr>"
      using assms(2) by (simp add: add_one_day_def)
    then show ?thesis
      using assms(4) unfolding date_le_def date_less_def by auto
  next
    case month
    then have "d' = d\<lparr>month := month d + 1, day := 1\<rparr>"
      using assms(2) by (simp add: add_one_day_def)
    moreover have "year x = year d \<and> month x = month d \<longrightarrow> day x \<le> day d"
      using assms(3) month unfolding valid_date_def by auto
    moreover have "1 \<le> day x"
      using assms(3) unfolding valid_date_def by simp
    ultimately show ?thesis
      using assms(4) unfolding date_le_def date_less_def by auto
  next
    case year
    then have "year d < 9999 \<and> d' = d\<lparr>year := year d + 1, month := 1, day := 1\<rparr>"
      using assms(2) by (simp add: add_one_day_def split: if_splits)
    moreover have "year x = year d \<and> month x = month d \<longrightarrow> day x \<le> day d"
      using assms(3) year unfolding valid_date_def by auto
    moreover have "1 \<le> day x" "1 \<le> month x" "month x \<le> 12"
      using assms(3) unfolding valid_date_def by simp_all
    ultimately show ?thesis
      using assms(4) year unfolding date_le_def date_less_def by auto
  qed
qed

lemma date_less_irrefl: "\<not> date_less a a"
  by (simp add: date_less_def)

lemma date_less_trans: "date_less a b \<Longrightarrow> date_less b c \<Longrightarrow> date_less a c"
  unfolding date_less_def by auto

lemma date_le_less_trans: "date_le a b \<Longrightarrow> date_less b c \<Longrightarrow> date_less a c"
  unfolding date_le_def date_less_def by auto

lemma date_less_le_trans: "date_less a b \<Longrightarrow> date_le b c \<Longrightarrow> date_less a c"
  unfolding date_le_def date_less_def by auto

lemma date_le_total: "date_le a b \<or> date_less b a"
  unfolding date_le_def date_less_def by auto

lemma date_less_add_one_day:
  assumes "valid_date s" "valid_date e" "add_one_day e = Inr e'"
  shows "date_less s e' \<longleftrightarrow> date_le s e"
proof
  assume l: "date_less s e'"
  show "date_le s e"
  proof (rule ccontr)
    assume "\<not> date_le s e"
    then have "date_less e s"
      using date_le_total [of s e] by simp
    then have "date_le e' s"
      using add_one_day_next [OF assms(2) assms(3) assms(1)] by simp
    then have "date_less e' e'"
      using l by (rule date_le_less_trans)
    then show False
      by (simp add: date_less_irrefl)
  qed
next
  assume "date_le s e"
  moreover have "date_less e e'"
    using add_one_day_valid [OF assms(2) assms(3)] by simp
  ultimately show "date_less s e'"
    by (rule date_le_less_trans)
qed

subsection \<open>The date window\<close>

text \<open>
  C9. When \<^verbatim>\<open>COST_DATE\<close> is not set and exactly one of \<^verbatim>\<open>COST_START\<close> and
  \<^verbatim>\<open>COST_END\<close> is set, \<open>get_dates\<close> raises nothing and returns the default window
  from yesterday to today, labelled with yesterday's date: the lone endpoint is never
  parsed, whatever it holds. (\<open>today\<close> is any date after \<^verbatim>\<open>date.min\<close>.)
\<close>

theorem get_dates_lone_endpoint:
  assumes "\<not> truthy (DATE cfg)"
    and "truthy (START cfg) \<noteq> truthy (END cfg)"
    and "valid_date today"
    and "sub_one_day today = Inr yest"
  shows "get_dates cfg today = Inr (strftime_ymd yest, strftime_ymd today, strftime_ymd yest)"
proof -
  have fwd: "add_one_day yest = Inr today"
    using sub_one_day_valid [OF assms(3) assms(4)] by simp
  show ?thesis
  proof (cases "truthy (START cfg)")
    case True
    then have "\<not> truthy (END cfg)"
      using assms(2) by simp
    then show ?thesis
      using assms(1) assms(4) fwd by (simp add: get_dates_def)
  next
    case False
    then show ?thesis
      using assms(1) assms(4) fwd by (simp add: get_dates_def)
  qed
qed

theorem get_dates_lone_endpoint_witness:
  "get_dates \<lparr>PROFILE = None, BUCKET = Some ''reports'', PREFIX = ''aws-costs/'',
       DATE = None, START = Some ''not a date'', END = None\<rparr>
     \<lparr>year = 2024, month = 3, day = 1\<rparr>
   = Inr (''2024-02-29'', ''2024-03-01'', ''2024-02-29'')"
  using get_dates_lone_endpoint
    [of "\<lparr>PROFILE = None, BUCKET = Some ''reports'', PREFIX = ''aws-costs/'',
           DATE = None, START = Some ''not a date'', END = None\<rparr>"
        "\<lparr>year = 2024, month = 3, day = 1\<rparr>"
        "\<lparr>year = 2024, month = 2, day = 29\<rparr>"]
  by (simp add: valid_date_def days_in_month_def is_leap_def sub_one_day_def
      strftime_ymd_def pad2_def decimal_digits.simps digit_char_def)

text \<open>
  C1. \<open>get_dates\<close> resolves the window in priority order. With a single date \<open>D\<close>
  configured the window runs from \<open>D\<close> to the day after \<open>D\<close> and the label is the
  configured string. Otherwise, with both a start \<open>S\<close> and an end \<open>E\<close> configured, it
  runs from \<open>S\<close> to the day after \<open>E\<close> and the label is \<open>S_to_E\<close>. Otherwise it runs
  from yesterday to today and the label is yesterday's date.
\<close>

theorem get_dates_resolution:
  "(truthy (DATE cfg) \<longrightarrow> strptime_ymd (the (DATE cfg)) = Inr d \<longrightarrow> add_one_day d = Inr d' \<longrightarrow>
      get_dates cfg today = Inr (strftime_ymd d, strftime_ymd d', the (DATE cfg)))
   \<and> (\<not> truthy (DATE cfg) \<longrightarrow> truthy (START cfg) \<longrightarrow> truthy (END cfg) \<longrightarrow>
      strptime_ymd (the (START cfg)) = Inr s \<longrightarrow> strptime_ymd (the (END cfg)) = Inr e \<longrightarrow>
      add_one_day e = Inr e' \<longrightarrow>
      get_dates cfg today
        = Inr (strftime_ymd s, strftime_ymd e', the (START cfg) @ ''_to_'' @ the (END cfg)))
   \<and> (\<not> truthy (DATE cfg) \<longrightarrow> \<not> (truthy (START cfg) \<and> truthy (END cfg)) \<longrightarrow>
      valid_date today \<longrightarrow> sub_one_day today = Inr yest \<longrightarrow>
      get_dates cfg today = Inr (strftime_ymd yest, strftime_ymd today, strftime_ymd yest))"
proof (intro conjI impI)
  assume "truthy (DATE cfg)" "strptime_ymd (the (DATE cfg)) = Inr d" "add_one_day d = Inr d'"
  then show "get_dates cfg today = Inr (strftime_ymd d, strftime_ymd d', the (DATE cfg))"
    by (simp add: get_dates_def)
next
  assume "\<not> truthy (DATE cfg)" "truthy (START cfg)" "truthy (END cfg)"
    "strptime_ymd (the (START cfg)) = Inr s" "strptime_ymd (the (END cfg)) = Inr e"
    "add_one_day e = Inr e'"
  then show "get_dates cfg today
      = Inr (strftime_ymd s, strftime_ymd e', the (START cfg) @ ''_to_'' @ the (END cfg))"
    by (simp add: get_dates_def)
next
  assume a: "\<not> truthy (DATE cfg)" "\<not> (truthy (START cfg) \<and> truthy (END cfg))"
    and v: "valid_date today" and s: "sub_one_day today = Inr yest"
  have "add_one_day yest = Inr today"
    using sub_one_day_valid [OF v s] by simp
  then show "get_dates cfg today = Inr (strftime_ymd yest, strftime_ymd today, strftime_ymd yest)"
    using a s by (cases "truthy (START cfg)") (simp_all add: get_dates_def)
qed

theorem get_dates_resolution_witness:
  "get_dates \<lparr>PROFILE = None, BUCKET = Some ''reports'', PREFIX = ''aws-costs/'',
       DATE = Some ''2024-2-28'', START = Some ''2024-01-01'', END = Some ''2024-01-31''\<rparr>
     \<lparr>year = 2024, month = 7, day = 1\<rparr>
   = Inr (''2024-02-28'', ''2024-02-29'', ''2024-2-28'')
   \<and> get_dates \<lparr>PROFILE = None, BUCKET = Some ''reports'', PREFIX = ''aws-costs/'',
       DATE = None, START = Some ''2024-01-01'', END = Some ''2024-01-31''\<rparr>
     \<lparr>year = 2024, month = 7, day = 1\<rparr>
   = Inr (''2024-01-01'', ''2024-02-01'', ''2024-01-01_to_2024-01-31'')
   \<and> get_dates \<lparr>PROFILE = None, BUCKET = Some ''reports'', PREFIX = ''aws-costs/'',
       DATE = None, START = None, END = None\<rparr>
     \<lparr>year = 2024, month = 7, day = 1\<rparr>
   = Inr (''2024-06-30'', ''2024-07-01'', ''2024-06-30'')"
  using
    get_dates_resolution
      [of "\<lparr>PROFILE = None, BUCKET = Some ''reports'', PREFIX = ''aws-costs/'',
             DATE = Some ''2024-2-28'', START = Some ''2024-01-01'', END = Some ''2024-01-31''\<rparr>"
          "\<lparr>year = 2024, month = 2, day = 28\<rparr>" "\<lparr>year = 2024, month = 2, day = 29\<rparr>"
          "\<lparr>year = 2024, month = 7, day = 1\<rparr>"]
    get_dates_resolution
      [of "\<lparr>PROFILE = None, BUCKET = Some ''reports'', PREFIX = ''aws-costs/'',
             DATE = None, START = Some ''2024-01-01'', END = Some ''2024-01-31''\<rparr>"
          _ _ _
          "\<lparr>year = 2024, month = 1, day = 1\<rparr>" "\<lparr>year = 2024, month = 1, day = 31\<rparr>"
          "\<lparr>year = 2024, month = 2, day = 1\<rparr>"]
    get_dates_resolution
      [of "\<lparr>PROFILE = None, BUCKET = Some ''reports'', PREFIX = ''aws-costs/'',
             DATE = None, START = None, END = None\<rparr>"
          _ _ "\<lparr>year = 2024, month = 7, day = 1\<rparr>" _ _ _
          "\<lparr>year = 2024, month = 6, day = 30\<rparr>"]
  by (simp add: valid_date_def days_in_month_def is_leap_def add_one_day_def sub_one_day_def
      strftime_ymd_def pad2_def decimal_digits.simps digit_char_def digit_val_def is_digit_def)

text \<open>
  C5 (as the code has it). The two bounds of a window that \<open>get_dates\<close> returns are the
  written forms of two dates. In the single-date mode and in the default mode the
  first date is strictly before the second. In the range mode the configured start and
  end are never compared with each other: the bounds are the start and the day after
  the end, and the first is strictly before the second exactly when the configured
  start is not after the configured end.
\<close>

theorem get_dates_window_ordered:
  assumes "valid_date today"
    and "get_dates cfg today = Inr (start, stop, label)"
  shows "\<exists>s e. start = strftime_ymd s \<and> stop = strftime_ymd e \<and> valid_date s \<and> valid_date e \<and>
           (if range_mode cfg
            then strptime_ymd (the (START cfg)) = Inr s \<and>
              (\<exists>l. strptime_ymd (the (END cfg)) = Inr l \<and> add_one_day l = Inr e \<and>
                 date_less s e = date_le s l)
            else date_less s e)"
proof (cases "truthy (DATE cfg)")
  case True
  then obtain d d' where d: "strptime_ymd (the (DATE cfg)) = Inr d" "add_one_day d = Inr d'"
    and r: "start = strftime_ymd d" "stop = strftime_ymd d'"
    using assms(2) by (auto simp: get_dates_def split: sum.splits)
  have v: "valid_date d"
    using d(1) by (rule strptime_ymd_valid)
  have "valid_date d'" "date_less d d'"
    using add_one_day_valid [OF v d(2)] by simp_all
  then show ?thesis
    using True v r by (auto simp: range_mode_def)
next
  case False
  show ?thesis
  proof (cases "truthy (START cfg) \<and> truthy (END cfg)")
    case True
    then obtain s l e where p: "strptime_ymd (the (START cfg)) = Inr s"
        "strptime_ymd (the (END cfg)) = Inr l" "add_one_day l = Inr e"
      and r: "start = strftime_ymd s" "stop = strftime_ymd e"
      using assms(2) False by (auto simp: get_dates_def split: sum.splits)
    have vs: "valid_date s" and vl: "valid_date l"
      using p(1) p(2) by (simp_all add: strptime_ymd_valid)
    have ve: "valid_date e"
      using add_one_day_valid [OF vl p(3)] by simp
    have "date_less s e = date_le s l"
      using date_less_add_one_day [OF vs vl p(3)] by simp
    then show ?thesis
      using True False p r vs ve by (auto simp: range_mode_def)
  next
    case nr: False
    then obtain yest t where y: "sub_one_day today = Inr yest" "add_one_day yest = Inr t"
      and r: "start = strftime_ymd yest" "stop = strftime_ymd t"
      using assms(2) False by (auto simp: get_dates_def split: sum.splits if_splits)
    have vy: "valid_date yest"
      using sub_one_day_valid [OF assms(1) y(1)] by simp
    have "valid_date t" "date_less yest t"
      using add_one_day_valid [OF vy y(2)] by simp_all
    then show ?thesis
      using nr False vy r by (auto simp: range_mode_def)
  qed
qed

theorem get_dates_window_ordered_witness:
  "\<exists>s e. ''999-12-31'' = strftime_ymd s \<and> ''1000-01-01'' = strftime_ymd e \<and>
      valid_date s \<and> valid_date e \<and>
      (if range_mode \<lparr>PROFILE = None, BUCKET = Some ''reports'', PREFIX = ''aws-costs/'',
             DATE = Some ''0999-12-31'', START = None, END = None\<rparr>
       then strptime_ymd (the (START \<lparr>PROFILE = None, BUCKET = Some ''reports'',
             PREFIX = ''aws-costs/'', DATE = Some ''0999-12-31'', START = None, END = None\<rparr>))
           = Inr s \<and>
         (\<exists>l. strptime_ymd (the (END \<lparr>PROFILE = None, BUCKET = Some ''reports'',
             PREFIX = ''aws-costs/'', DATE = Some ''0999-12-31'', START = None, END = None\<rparr>))
             = Inr l \<and> add_one_day l = Inr e \<and> date_less s e = date_le s l)
       else date_less s e)"
proof -
  have v: "valid_date \<lparr>year = 2024, month = 7, day = 1\<rparr>"
    by (simp add: valid_date_def days_in_month_def)
  have g: "get_dates \<lparr>PROFILE = None, BUCKET = Some ''reports'', PREFIX = ''aws-costs/'',
        DATE = Some ''0999-12-31'', START = None, END = None\<rparr>
      \<lparr>year = 2024, month = 7, day = 1\<rparr>
    = Inr (''999-12-31'', ''1000-01-01'', ''0999-12-31'')"
    by (simp add: get_dates_def valid_date_def days_in_month_def is_leap_def add_one_day_def
        strftime_ymd_def pad2_def decimal_digits.simps digit_char_def digit_val_def
        is_digit_def)
  show ?thesis
    by (rule get_dates_window_ordered [OF v g])
qed

theorem get_dates_window_unordered:
  "get_dates \<lparr>PROFILE = None, BUCKET = Some ''reports'', PREFIX = ''aws-costs/'',
       DATE = None, START = Some ''2024-01-10'', END = Some ''2024-01-01''\<rparr>
     \<lparr>year = 2024, month = 7, day = 1\<rparr>
   = Inr (''2024-01-10'', ''2024-01-02'', ''2024-01-10_to_2024-01-01'')
   \<and> strftime_ymd \<lparr>year = 2024, month = 1, day = 10\<rparr> = ''2024-01-10''
   \<and> strftime_ymd \<lparr>year = 2024, month = 1, day = 2\<rparr> = ''2024-01-02''
   \<and> \<not> date_less \<lparr>year = 2024, month = 1, day = 10\<rparr> \<lparr>year = 2024, month = 1, day = 2\<rparr>"
  by (simp add: get_dates_def date_less_def
      valid_date_def days_in_month_def is_leap_def add_one_day_def
      strftime_ymd_def pad2_def decimal_digits.simps digit_char_def digit_val_def is_digit_def)

subsection \<open>The normalizer\<close>

lemma normalize_group_flat:
  assumes "well_formed p g"
  shows "normalize_group p g = Inr (flat_record p g)"
  using assms
  by (auto simp: well_formed_def normalize_group_def flat_record_def period_start_def
      group_service_def group_metric_def group_amount_def group_unit_def
      split: option.splits list.splits sum.splits)

lemma normalize_groups_flat:
  assumes "\<forall>g\<in>set gs. well_formed p g"
  shows "normalize_groups p gs rows = Inr (rows @ map (flat_record p) gs)"
  using assms
proof (induction gs arbitrary: rows)
  case Nil
  show ?case by simp
next
  case (Cons g gs)
  then show ?case by (simp add: normalize_group_flat)
qed

lemma normalize_periods_flat:
  assumes "\<forall>p\<in>set ps. \<forall>g\<in>set (groups_of p). well_formed p g"
  shows "normalize_periods ps rows
    = Inr (rows @ concat (map (\<lambda>p. map (flat_record p) (groups_of p)) ps))"
  using assms
proof (induction ps arbitrary: rows)
  case Nil
  show ?case by simp
next
  case (Cons p ps)
  then show ?case by (simp add: normalize_groups_flat)
qed

lemma normalize_periods_append:
  "normalize_periods (ps @ qs) rows =
     (case normalize_periods ps rows of Inl e \<Rightarrow> Inl e | Inr rows' \<Rightarrow> normalize_periods qs rows')"
  by (induction ps arbitrary: rows) (auto split: sum.splits)

text \<open>
  C2. For a response whose groups all have their key, amount and unit, and whose
  periods have their start date, \<open>normalize\<close> returns the flat records: one for each
  group of each period, carrying the start date of the period, the service key, the
  amount as a float and the unit, the periods in their order and the groups of a period
  in their order. Their number is the sum of the numbers of groups of the periods.
\<close>

theorem normalize_flat_records:
  assumes "\<forall>p\<in>set (periods_of resp). \<forall>g\<in>set (groups_of p). well_formed p g"
  shows "normalize resp = Inr (flat_records resp)
    \<and> length (flat_records resp) = sum_list (map (\<lambda>p. length (groups_of p)) (periods_of resp))"
proof
  show "normalize resp = Inr (flat_records resp)"
    using normalize_periods_flat [OF assms, of "[]"]
    by (simp add: normalize_def flat_records_def)
  show "length (flat_records resp)
      = sum_list (map (\<lambda>p. length (groups_of p)) (periods_of resp))"
    by (simp add: flat_records_def length_concat comp_def)
qed

lemma to_float_example_ec2: "to_float ''12.3400'' = Inr (Finite 3473401212609495 (- 48))"
  by code_simp

lemma to_float_example_s3: "to_float ''0.5000'' = Inr (Finite 1 (- 1))"
  by code_simp

theorem normalize_flat_records_witness:
  "normalize example_response = Inr (flat_records example_response)
   \<and> flat_records example_response =
       [\<lparr>date = ''2024-01-01'', service = ''AmazonEC2'',
          amount = Finite 3473401212609495 (- 48), unit = ''USD''\<rparr>,
        \<lparr>date = ''2024-01-01'', service = ''AmazonS3'', amount = Finite 1 (- 1),
          unit = ''USD''\<rparr>]
   \<and> length (flat_records example_response) = 2"
  using normalize_flat_records [of example_response]
  by (simp add: example_response_def example_group_def periods_of_def groups_of_def
      well_formed_def flat_records_def flat_record_def period_start_def group_service_def
      group_metric_def group_amount_def group_unit_def
      to_float_example_ec2 to_float_example_s3)

text \<open>
  C10. \<open>normalize\<close> reads the two containers with a default. A response without
  \<^verbatim>\<open>ResultsByTime\<close>, the empty dictionary among them, gives no record and no error. A
  period without \<^verbatim>\<open>Groups\<close>, wherever it stands in the response, gives no record and
  no error, as a period with the empty list of groups does.
\<close>

theorem normalize_missing_containers:
  "normalize (resp\<lparr>ResultsByTime := None\<rparr>) = Inr []
   \<and> normalize \<lparr>ResultsByTime = Some (ps @ [p\<lparr>Groups := None\<rparr>] @ qs)\<rparr>
       = normalize \<lparr>ResultsByTime = Some (ps @ qs)\<rparr>
   \<and> normalize \<lparr>ResultsByTime = Some (ps @ [p\<lparr>Groups := None\<rparr>] @ qs)\<rparr>
       = normalize \<lparr>ResultsByTime = Some (ps @ [p\<lparr>Groups := Some []\<rparr>] @ qs)\<rparr>"
  by (simp add: normalize_def periods_of_def groups_of_def normalize_periods_append
      split: sum.splits)

theorem normalize_missing_containers_witness:
  "normalize \<lparr>ResultsByTime = None\<rparr> = Inr []
   \<and> normalize \<lparr>ResultsByTime = Some [\<lparr>TimePeriod = None, Groups = None\<rparr>]\<rparr> = Inr []"
  using normalize_missing_containers
    [of "\<lparr>ResultsByTime = Some []\<rparr>" "[]" "\<lparr>TimePeriod = None, Groups = Some []\<rparr>" "[]"]
  by (simp add: normalize_def periods_of_def)

subsection \<open>Runs\<close>

lemma and_then_Inl: "and_then (t, Inl e) f = (t, Inl e)"
  by (simp add: and_then_def)

lemma and_then_Inr: "and_then (t, Inr x) f = (t @ fst (f x), snd (f x))"
  by (simp add: and_then_def split: prod.splits)

text \<open>
  C4. Without \<^verbatim>\<open>COST_S3_BUCKET\<close>, unset or empty, the script ends with
  \<^verbatim>\<open>RuntimeError\<close> before it does anything to the outside: no client is made, no cost
  query is sent and nothing is uploaded.
\<close>

theorem program_requires_bucket:
  assumes "\<not> truthy (env ''COST_S3_BUCKET'')"
  shows "program env w = ([], Inl RuntimeError)"
  using assms by (simp add: program_def load_config_def)

theorem program_requires_bucket_witness:
  "program Map.empty example_world = ([], Inl RuntimeError)
   \<and> program [''COST_S3_BUCKET'' \<mapsto> ''''] example_world = ([], Inl RuntimeError)"
  using program_requires_bucket [of Map.empty example_world]
    program_requires_bucket [of "[''COST_S3_BUCKET'' \<mapsto> '''']" example_world]
  by simp

subsection \<open>File names and labels\<close>

lemma digit_char_cases:
  "k mod 10 = 0 \<or> k mod 10 = 1 \<or> k mod 10 = 2 \<or> k mod 10 = 3 \<or> k mod 10 = 4 \<or>
   k mod 10 = 5 \<or> k mod 10 = 6 \<or> k mod 10 = 7 \<or> k mod 10 = 8 \<or> (k::nat) mod 10 = 9"
  by arith

lemma digit_char_no_slash: "digit_char k \<noteq> CHR ''/''"
  using digit_char_cases [of k] by (auto simp: digit_char_def)

lemma decimal_digits_no_slash: "CHR ''/'' \<notin> set (decimal_digits n)"
proof (induction n rule: decimal_digits.induct)
  case (1 n)
  show ?case
  proof (cases "n < 10")
    case True
    then show ?thesis
      using digit_char_no_slash [of "nat n"] by (simp add: decimal_digits.simps [of n])
  next
    case False
    then show ?thesis
      using 1 digit_char_no_slash [of "nat (n mod 10)"]
      by (simp add: decimal_digits.simps [of n])
  qed
qed

lemma strftime_ymd_no_slash: "CHR ''/'' \<notin> set (strftime_ymd d)"
  using digit_char_no_slash [of "month d div 10"] digit_char_no_slash [of "month d"]
    digit_char_no_slash [of "day d div 10"] digit_char_no_slash [of "day d"]
  by (simp add: strftime_ymd_def pad2_def decimal_digits_no_slash)

lemma nonzero_digit_no_slash: "c \<in> set ''123456789'' \<Longrightarrow> c \<noteq> CHR ''/''"
  by auto

lemma is_digit_no_slash: "is_digit c \<Longrightarrow> c \<noteq> CHR ''/''"
  by (auto simp: is_digit_def)

lemma match_month_tail:
  assumes "match_month r = Some (m, r')"
  shows "\<exists>a t. r = a # t \<and> a \<noteq> CHR ''/'' \<and> (r' = t \<or> (\<exists>b. t = b # r' \<and> b \<noteq> CHR ''/''))"
proof (cases r rule: match_month.cases)
  case (1 a b t)
  show ?thesis
  proof (cases "a = CHR ''1'' \<and> b \<in> set ''012''")
    case True
    then have "r' = t" "a \<noteq> CHR ''/''" "b \<noteq> CHR ''/''"
      using assms 1 by auto
    then show ?thesis using 1 by simp
  next
    case c1: False
    show ?thesis
    proof (cases "a = CHR ''0'' \<and> b \<in> set ''123456789''")
      case True
      then have "r' = t" "a \<noteq> CHR ''/''" "b \<noteq> CHR ''/''"
        using assms 1 c1 by auto
      then show ?thesis using 1 by simp
    next
      case c2: False
      have c3: "a \<in> set ''123456789''"
        using assms c1 c2 unfolding 1 match_month.simps by (simp split: if_splits)
      then have "r' = b # t"
        using assms c1 c2 unfolding 1 match_month.simps by (simp split: if_splits)
      moreover have "a \<noteq> CHR ''/''"
        using c3 by (rule nonzero_digit_no_slash)
      ultimately show ?thesis using 1 by simp
    qed
  qed
next
  case (2 a)
  then have "a \<in> set ''123456789''" "r' = []"
    using assms by (simp_all split: if_splits)
  then show ?thesis
    using 2 nonzero_digit_no_slash [of a] by simp
next
  case 3
  then show ?thesis using assms by simp
qed


lemma match_day_tail:
  assumes "match_day r = Some (m, r')"
  shows "\<exists>a t. r = a # t \<and> a \<noteq> CHR ''/'' \<and> (r' = t \<or> (\<exists>b. t = b # r' \<and> b \<noteq> CHR ''/''))"
proof (cases r rule: match_day.cases)
  case (1 a b t)
  show ?thesis
  proof (cases "a = CHR ''3'' \<and> b \<in> set ''01''")
    case True
    then have "r' = t" "a \<noteq> CHR ''/''" "b \<noteq> CHR ''/''"
      using assms 1 by auto
    then show ?thesis using 1 by simp
  next
    case c1: False
    show ?thesis
    proof (cases "a \<in> set ''12'' \<and> is_digit b")
      case True
      then have "r' = t"
        using assms c1 unfolding 1 match_day.simps by (auto split: if_splits)
      moreover have "a \<noteq> CHR ''/''" "b \<noteq> CHR ''/''"
        using True is_digit_no_slash [of b] by auto
      ultimately show ?thesis using 1 by simp
    next
      case c2: False
      show ?thesis
      proof (cases "a = CHR ''0'' \<and> b \<in> set ''123456789''")
        case True
        then have "r' = t" "a \<noteq> CHR ''/''" "b \<noteq> CHR ''/''"
          using assms 1 c1 c2 nonzero_digit_no_slash [of b] by simp_all
        then show ?thesis using 1 by simp
      next
        case c3: False
        show ?thesis
        proof (cases "a \<in> set ''123456789''")
          case True
          then have "r' = b # t"
            using assms c1 c2 c3 unfolding 1 match_day.simps by (simp split: if_splits)
          moreover have "a \<noteq> CHR ''/''"
            using True by (rule nonzero_digit_no_slash)
          ultimately show ?thesis using 1 by simp
        next
          case c4: False
          then have c5: "a = CHR '' '' \<and> b \<in> set ''123456789''"
            using assms c1 c2 c3 unfolding 1 match_day.simps by (simp split: if_splits)
          then have "r' = t"
            using assms c1 c2 c3 c4 unfolding 1 match_day.simps by (simp split: if_splits)
          moreover have "a \<noteq> CHR ''/''" "b \<noteq> CHR ''/''"
            using c5 nonzero_digit_no_slash [of b] by simp_all
          ultimately show ?thesis using 1 by simp
        qed
      qed
    qed
  qed
next
  case (2 a)
  then have "a \<in> set ''123456789''" "r' = []"
    using assms by (simp_all split: if_splits)
  then show ?thesis
    using 2 nonzero_digit_no_slash [of a] by simp
next
  case 3
  then show ?thesis using assms by simp
qed

lemma strptime_ymd_no_slash:
  assumes "strptime_ymd s = Inr d"
  shows "CHR ''/'' \<notin> set s"
proof -
  from assms obtain y1 y2 y3 y4 r where s: "s = y1 # y2 # y3 # y4 # CHR ''-'' # r"
    by (cases s rule: strptime_ymd.cases) (simp_all split: if_splits)
  have y: "is_digit y1" "is_digit y2" "is_digit y3" "is_digit y4"
    using assms unfolding s by (simp_all split: if_splits)
  obtain m r1 where mm: "match_month r = Some (m, r1)"
    using assms y unfolding s by (cases "match_month r") auto
  obtain r2 where r1: "r1 = CHR ''-'' # r2"
    using assms y mm unfolding s by (cases r1) (simp_all split: if_splits)
  obtain dd r3 where md: "match_day r2 = Some (dd, r3)"
    using assms y mm r1 unfolding s by (cases "match_day r2") auto
  have r3: "r3 = []"
    using assms y mm r1 md unfolding s by (simp add: Let_def split: if_splits)
  have "CHR ''/'' \<notin> set r2"
    using match_day_tail [OF md] r3 by auto
  then have "CHR ''/'' \<notin> set r"
    using match_month_tail [OF mm] r1 by auto
  then show ?thesis
    using y is_digit_no_slash unfolding s by auto
qed

lemma get_dates_label_no_slash:
  assumes "get_dates cfg t = Inr (start, stop, label)"
  shows "CHR ''/'' \<notin> set label"
proof (cases "truthy (DATE cfg)")
  case True
  then obtain d where "strptime_ymd (the (DATE cfg)) = Inr d" "label = the (DATE cfg)"
    using assms by (auto simp: get_dates_def split: sum.splits)
  then show ?thesis
    using strptime_ymd_no_slash by simp
next
  case False
  show ?thesis
  proof (cases "truthy (START cfg) \<and> truthy (END cfg)")
    case True
    then obtain s e where "strptime_ymd (the (START cfg)) = Inr s"
        "strptime_ymd (the (END cfg)) = Inr e"
        "label = the (START cfg) @ ''_to_'' @ the (END cfg)"
      using assms False by (auto simp: get_dates_def split: sum.splits)
    then show ?thesis
      using strptime_ymd_no_slash [of "the (START cfg)" s]
        strptime_ymd_no_slash [of "the (END cfg)" e] by simp
  next
    case nr: False
    then obtain yest where "label = strftime_ymd yest"
      using assms False by (auto simp: get_dates_def split: sum.splits if_splits)
    then show ?thesis
      by (simp add: strftime_ymd_no_slash)
  qed
qed


lemma basename_output:
  assumes "CHR ''/'' \<notin> set name"
  shows "basename (''output/'' @ name) = name"
proof -
  have "takeWhile (\<lambda>c. c \<noteq> CHR ''/'') (rev name @ ''/tuptuo'')
      = rev name @ takeWhile (\<lambda>c. c \<noteq> CHR ''/'') ''/tuptuo''"
    by (rule takeWhile_append2) (use assms in auto)
  then show ?thesis
    by (simp add: basename_def)
qed

lemma path_join_output:
  "c \<noteq> CHR ''/'' \<Longrightarrow> path_join ''output'' (c # x) = ''output/'' @ c # x"
  by (simp add: path_join_def)

lemma main_success:
  assumes "calls_succeed w"
    and "get_dates cfg (current_date w) = Inr (start, stop, label)"
    and "cost_and_usage w start stop = Inr resp"
    and "normalize resp = Inr rows"
  shows "main cfg w =
    ([CreateClient ''ce'' (if truthy (PROFILE cfg) then PROFILE cfg else None),
      GetCostAndUsage start stop,
      MakeDirs ''output'',
      WriteJson (''output/aws_costs_'' @ label @ ''.json'') rows]
     @ (if has_pandas w then [WriteCsv (''output/aws_costs_'' @ label @ ''.csv'') rows] else [])
     @ [CreateClient ''s3'' (if truthy (PROFILE cfg) then PROFILE cfg else None),
        UploadFile (''output/aws_costs_'' @ label @ ''.json'') (the (BUCKET cfg))
          (rstrip_slash (PREFIX cfg) @ ''/''
             @ basename (''output/aws_costs_'' @ label @ ''.json''))]
     @ (if has_pandas w
        then [CreateClient ''s3'' (if truthy (PROFILE cfg) then PROFILE cfg else None),
              UploadFile (''output/aws_costs_'' @ label @ ''.csv'') (the (BUCKET cfg))
                (rstrip_slash (PREFIX cfg) @ ''/''
                   @ basename (''output/aws_costs_'' @ label @ ''.csv''))]
        else [])
     @ [Print (uploaded_mark @ '' Uploaded billing for '' @ label @ '' '' @ arrow_mark
               @ '' s3://'' @ the (BUCKET cfg) @ ''/'' @ PREFIX cfg),
        Print (total_mark @ '' Total = '' @ format_2f (py_sum (map amount rows)) @ '' ''
               @ (case rows of [] \<Rightarrow> ''USD'' | r # _ \<Rightarrow> unit r))],
     Inr ())"
  using assms
  by (simp add: main_def Let_def calls_succeed_def and_then_Inr and_then_Inl path_join_output
      boto3_ce_client_def boto3_s3_client_def get_cost_by_service_def save_json_def
      save_csv_def upload_def effect_def no_effect_def)



lemma basename_local:
  assumes "get_dates cfg t = Inr (start, stop, label)" and "CHR ''/'' \<notin> set ext"
  shows "basename (''output/aws_costs_'' @ label @ ext) = ''aws_costs_'' @ label @ ext"
proof -
  have "CHR ''/'' \<notin> set (''aws_costs_'' @ label @ ext)"
    using get_dates_label_no_slash [OF assms(1)] assms(2) by simp
  then show ?thesis
    using basename_output [of "''aws_costs_'' @ label @ ext"] by simp
qed

subsection \<open>The example run\<close>

lemma example_calls_succeed: "calls_succeed example_world"
  by (simp add: calls_succeed_def example_world_def)

lemma example_get_dates:
  "get_dates (load_config example_environ) (current_date example_world)
     = Inr (''2024-01-01'', ''2024-01-02'', ''2024-01-01'')"
  by (simp add: get_dates_def load_config_def example_environ_def example_world_def
      sub_one_day_def add_one_day_def days_in_month_def is_leap_def strftime_ymd_def pad2_def
      decimal_digits.simps digit_char_def)

lemma example_cost_and_usage:
  "cost_and_usage example_world ''2024-01-01'' ''2024-01-02'' = Inr example_response"
  by (simp add: example_world_def)

lemma example_normalize: "normalize example_response = Inr example_rows"
  by (simp add: normalize_def periods_of_def groups_of_def example_response_def
      example_group_def normalize_group_def example_rows_def
      to_float_example_ec2 to_float_example_s3)

lemma example_total: "format_2f (py_sum (map amount example_rows)) = ''12.84''"
  unfolding example_rows_def by code_simp

lemma empty_total: "format_2f (py_sum []) = ''0.00''"
  by code_simp


lemma rstrip_slash_eq_iff: "rstrip_slash s = s \<longleftrightarrow> (s = [] \<or> last s \<noteq> CHR ''/'')"
proof (cases s rule: rev_cases)
  case Nil
  then show ?thesis by (simp add: rstrip_slash_def)
next
  case (snoc xs x)
  show ?thesis
  proof (cases "x = CHR ''/''")
    case True
    have "length (rstrip_slash s) \<le> length xs"
      using True snoc length_dropWhile_le [of "\<lambda>c. c = CHR ''/''" "rev xs"]
      by (simp add: rstrip_slash_def)
    then have "rstrip_slash s \<noteq> s"
      using snoc by auto
    then show ?thesis
      using True snoc by simp
  next
    case False
    then show ?thesis
      using snoc by (simp add: rstrip_slash_def)
  qed
qed

lemma example_program:
  "program example_environ w = main (load_config example_environ) w"
  by (simp add: program_def load_config_def example_environ_def)

subsection \<open>Persisting, uploading and reporting\<close>

text \<open>
  C8. Without pandas \<open>save_csv\<close> writes nothing and raises nothing, for every record
  sequence, while \<open>save_json\<close> writes the records; with pandas \<open>save_csv\<close> writes the same
  records as CSV. In a run of \<open>main\<close> in which every call succeeds the JSON file is
  written with the normalized records; with pandas the CSV file is written with them
  and uploaded too, and without pandas no CSV file is written or uploaded and the run
  still ends without an error.
\<close>

theorem csv_only_with_pandas:
  assumes "calls_succeed w"
    and "get_dates cfg (current_date w) = Inr (start, stop, label)"
    and "cost_and_usage w start stop = Inr resp"
    and "normalize resp = Inr rows"
  shows "(if has_pandas w then save_csv w rs path = ([WriteCsv path rs], Inr ())
          else save_csv w rs path = ([], Inr ()))
    \<and> save_json w rs path = ([WriteJson path rs], Inr ())
    \<and> WriteJson (''output/aws_costs_'' @ label @ ''.json'') rows \<in> set (fst (main cfg w))
    \<and> snd (main cfg w) = Inr ()
    \<and> (if has_pandas w
        then WriteCsv (''output/aws_costs_'' @ label @ ''.csv'') rows \<in> set (fst (main cfg w))
          \<and> (\<exists>key. UploadFile (''output/aws_costs_'' @ label @ ''.csv'') (the (BUCKET cfg)) key
                 \<in> set (fst (main cfg w)))
        else (\<forall>p x. WriteCsv p x \<notin> set (fst (main cfg w)))
          \<and> (\<forall>b k. UploadFile (''output/aws_costs_'' @ label @ ''.csv'') b k
                 \<notin> set (fst (main cfg w))))"
  using assms(1)
  by (simp add: main_success [OF assms] calls_succeed_def save_csv_def save_json_def
      effect_def no_effect_def)

theorem csv_only_with_pandas_witness:
  "save_csv example_world example_rows ''output/aws_costs_2024-01-01.csv'' = ([], Inr ())
   \<and> save_json example_world example_rows ''output/aws_costs_2024-01-01.json''
       = ([WriteJson ''output/aws_costs_2024-01-01.json'' example_rows], Inr ())
   \<and> WriteJson ''output/aws_costs_2024-01-01.json'' example_rows
       \<in> set (fst (main (load_config example_environ) example_world))
   \<and> snd (main (load_config example_environ) example_world) = Inr ()
   \<and> WriteCsv ''output/aws_costs_2024-01-01.csv'' example_rows
       \<notin> set (fst (main (load_config example_environ) example_world))"
  using csv_only_with_pandas
    [OF example_calls_succeed example_get_dates example_cost_and_usage example_normalize,
      of example_rows "''output/aws_costs_2024-01-01.csv''"]
    csv_only_with_pandas
    [OF example_calls_succeed example_get_dates example_cost_and_usage example_normalize,
      of example_rows "''output/aws_costs_2024-01-01.json''"]
  by (simp add: example_world_def)

text \<open>
  C3. In a run in which every call succeeds the last line printed is the total: the
  sum of the amounts of the normalized records, \<open>0\<close> for no record, written with two
  decimals and followed by the unit of the first record, or by \<^verbatim>\<open>USD\<close> when there is
  none. The example response gives two records and the total \<^verbatim>\<open>12.84 USD\<close>; a response
  without periods gives no record and the total \<^verbatim>\<open>0.00 USD\<close>.
\<close>

theorem report_total:
  "(calls_succeed w \<longrightarrow> get_dates cfg (current_date w) = Inr (start, stop, label) \<longrightarrow>
      cost_and_usage w start stop = Inr resp \<longrightarrow> normalize resp = Inr rows \<longrightarrow>
      last (fst (main cfg w))
        = Print (total_mark @ '' Total = '' @ format_2f (py_sum (map amount rows)) @ '' ''
                 @ (case rows of [] \<Rightarrow> ''USD'' | r # _ \<Rightarrow> unit r)))
   \<and> py_sum [] = Finite 0 0
   \<and> normalize example_response = Inr example_rows \<and> length example_rows = 2
   \<and> last (fst (program example_environ example_world))
       = Print (total_mark @ '' Total = 12.84 USD'')
   \<and> normalize \<lparr>ResultsByTime = Some []\<rparr> = Inr []
   \<and> last (fst (program example_environ
         (example_world\<lparr>cost_and_usage := \<lambda>_ _. Inr \<lparr>ResultsByTime = Some []\<rparr>\<rparr>)))
       = Print (total_mark @ '' Total = 0.00 USD'')"
proof (intro conjI impI)
  assume "calls_succeed w" "get_dates cfg (current_date w) = Inr (start, stop, label)"
    "cost_and_usage w start stop = Inr resp" "normalize resp = Inr rows"
  then show "last (fst (main cfg w))
      = Print (total_mark @ '' Total = '' @ format_2f (py_sum (map amount rows)) @ '' ''
               @ (case rows of [] \<Rightarrow> ''USD'' | r # _ \<Rightarrow> unit r))"
    by (simp add: main_success)
next
  show "py_sum [] = Finite 0 0"
    by (simp add: py_sum_def)
next
  show "normalize example_response = Inr example_rows"
    by (rule example_normalize)
next
  show "length example_rows = 2"
    by (simp add: example_rows_def)
next
  have "last (fst (main (load_config example_environ) example_world))
      = Print (total_mark @ '' Total = '' @ format_2f (py_sum (map amount example_rows))
               @ '' '' @ (case example_rows of [] \<Rightarrow> ''USD'' | r # _ \<Rightarrow> unit r))"
    by (simp add: main_success [OF example_calls_succeed example_get_dates
          example_cost_and_usage example_normalize])
  then show "last (fst (program example_environ example_world))
      = Print (total_mark @ '' Total = 12.84 USD'')"
    unfolding example_program example_total by (simp add: example_rows_def)
next
  show "normalize \<lparr>ResultsByTime = Some []\<rparr> = Inr []"
    by (simp add: normalize_def periods_of_def)
next
  let ?w = "example_world\<lparr>cost_and_usage := \<lambda>_ _. Inr \<lparr>ResultsByTime = Some []\<rparr>\<rparr>"
  have c: "calls_succeed ?w"
    by (simp add: calls_succeed_def example_world_def)
  have g: "get_dates (load_config example_environ) (current_date ?w)
      = Inr (''2024-01-01'', ''2024-01-02'', ''2024-01-01'')"
    using example_get_dates by (simp add: example_world_def)
  have u: "cost_and_usage ?w ''2024-01-01'' ''2024-01-02'' = Inr \<lparr>ResultsByTime = Some []\<rparr>"
    by simp
  have n: "normalize \<lparr>ResultsByTime = Some []\<rparr> = Inr []"
    by (simp add: normalize_def periods_of_def)
  have "last (fst (main (load_config example_environ) ?w))
      = Print (total_mark @ '' Total = '' @ format_2f (py_sum (map amount [])) @ '' '' @ ''USD'')"
    by (simp add: main_success [OF c g u n])
  then show "last (fst (program example_environ ?w)) = Print (total_mark @ '' Total = 0.00 USD'')"
    unfolding example_program by (simp add: empty_total)
qed

theorem report_total_witness:
  "last (fst (main (load_config example_environ) example_world))
     = Print (total_mark @ '' Total = 12.84 USD'')"
  using report_total [of example_world "load_config example_environ" "''2024-01-01''"
      "''2024-01-02''" "''2024-01-01''" example_response example_rows]
    example_calls_succeed example_get_dates example_cost_and_usage example_normalize
    example_total
  by (simp add: example_rows_def)

text \<open>
  C6 (as the code has it). In a run in which every call succeeds, each file is uploaded
  to the configured bucket under the key made of the configured prefix without its
  trailing slashes, a slash, and the base name of the local file, which is
  \<^verbatim>\<open>aws_costs_<label>.json\<close> or \<^verbatim>\<open>aws_costs_<label>.csv\<close>; the JSON file is always among
  the uploads. The key is the configured prefix itself, a slash and the file name exactly
  when the prefix does not end with a slash.
\<close>

theorem upload_key:
  assumes "calls_succeed w"
    and "get_dates cfg (current_date w) = Inr (start, stop, label)"
    and "cost_and_usage w start stop = Inr resp"
    and "normalize resp = Inr rows"
  shows "UploadFile (''output/aws_costs_'' @ label @ ''.json'') (the (BUCKET cfg))
           (rstrip_slash (PREFIX cfg) @ ''/aws_costs_'' @ label @ ''.json'')
         \<in> set (fst (main cfg w))
    \<and> (\<forall>local bucket key. UploadFile local bucket key \<in> set (fst (main cfg w)) \<longrightarrow>
          bucket = the (BUCKET cfg)
          \<and> key = rstrip_slash (PREFIX cfg) @ ''/'' @ basename local
          \<and> local = ''output/'' @ basename local
          \<and> (basename local = ''aws_costs_'' @ label @ ''.json''
             \<or> basename local = ''aws_costs_'' @ label @ ''.csv''))
    \<and> (rstrip_slash (PREFIX cfg) = PREFIX cfg
         \<longleftrightarrow> (PREFIX cfg = [] \<or> last (PREFIX cfg) \<noteq> CHR ''/''))"
proof -
  have bj: "basename (''output/aws_costs_'' @ label @ ''.json'') = ''aws_costs_'' @ label @ ''.json''"
    by (rule basename_local [OF assms(2)]) simp
  have bc: "basename (''output/aws_costs_'' @ label @ ''.csv'') = ''aws_costs_'' @ label @ ''.csv''"
    by (rule basename_local [OF assms(2)]) simp
  show ?thesis
    using bj bc
    by (auto simp: main_success [OF assms] rstrip_slash_eq_iff)
qed

theorem upload_key_witness:
  "UploadFile ''output/aws_costs_2024-01-01.json'' ''reports''
     ''aws-costs/aws_costs_2024-01-01.json''
   \<in> set (fst (main (load_config example_environ) example_world))"
  using upload_key
    [OF example_calls_succeed example_get_dates example_cost_and_usage example_normalize]
  by (simp add: load_config_def example_environ_def rstrip_slash_def)

theorem upload_key_default_prefix:
  "PREFIX (load_config example_environ) = ''aws-costs/''
   \<and> UploadFile ''output/aws_costs_2024-01-01.json'' ''reports''
       ''aws-costs/aws_costs_2024-01-01.json''
     \<in> set (fst (program example_environ example_world))
   \<and> basename ''output/aws_costs_2024-01-01.json'' = ''aws_costs_2024-01-01.json''
   \<and> ''aws-costs/aws_costs_2024-01-01.json''
     \<noteq> PREFIX (load_config example_environ) @ ''/''
         @ basename ''output/aws_costs_2024-01-01.json''"
proof -
  have "UploadFile ''output/aws_costs_2024-01-01.json'' ''reports''
      ''aws-costs/aws_costs_2024-01-01.json''
    \<in> set (fst (main (load_config example_environ) example_world))"
    using main_success
      [OF example_calls_succeed example_get_dates example_cost_and_usage example_normalize]
    by (simp add: load_config_def example_environ_def rstrip_slash_def basename_def)
  then show ?thesis
    unfolding example_program
    by (simp add: load_config_def example_environ_def basename_def)
qed

end
